theory Spec2Isabelle
  imports Complex_Main "HOL-Library.Sublist"
begin

section \<open>Values, errors and the analyzer's state\<close>

text \<open>
  A float64 value: every finite double is \<open>m * 2 ^ e\<close> for two integers, and there are
  two infinities. NaN is not among them: pandas reads it as a missing value.
\<close>

datatype float64 = Finite int int | Infinite bool

fun float_value :: "float64 \<Rightarrow> rat option" where
  "float_value (Finite m e) =
     Some (if 0 \<le> e then of_int m * 2 ^ nat e else of_int m / 2 ^ nat (- e))"
| "float_value (Infinite negative) = None"

text \<open>
  A cell of a table: the scalar values the API's JSON carries in a row, as Python reads
  them (null, an integer of any size, a float, a string), and the two values
  \<open>pd.to_datetime\<close> writes into the date column (a timestamp, counted in nanoseconds, or
  NaT). \<open>Null\<close> is every missing value, \<open>None\<close> and NaN alike.
\<close>

datatype cell = Null | Integer int | Float float64 | Str string | Timestamp int | NaT

text \<open>The exceptions the pandas calls of the program raise.\<close>

datatype error = KeyError string | ValueError | TypeError

text \<open>
  \<open>raw_data['datatable']\<close>: the names of its \<open>columns\<close> entries, in order, and its
  \<open>data\<close>, one list of values per row.
\<close>

record datatable =
  columns :: "string list"
  data :: "cell list list"

text \<open>
  A frame whose column labels are only known at run time: its labels, which may repeat,
  and its rows, every row with one cell per label.
\<close>

record dataframe =
  df_columns :: "string list"
  df_rows :: "cell list list"

text \<open>
  A row of the frame after line 142 has set the nine labels \<open>report_id\<close>, ..., \<open>amount\<close>.
\<close>

record table_row =
  report_id :: cell
  report_date :: cell
  report_type :: cell
  company_name :: cell
  country :: cell
  region :: cell
  indicator :: cell
  statement :: cell
  amount :: cell

text \<open>The module \<open>config\<close> (a global of the program) and an instance of the class.\<close>

record config =
  config_api_key :: string
  config_username :: string
  config_password :: string

record analyzer =
  api_key :: string
  api_url :: string
  username :: string
  password :: string
  raw_data :: "datatable option"
  processed_data :: "table_row list option"

text \<open>\<open>__init__\<close> (lines 17-32): the three arguments are never read.\<close>

definition init :: "config \<Rightarrow> string \<Rightarrow> string \<Rightarrow> string \<Rightarrow> analyzer" where
  "init cfg api_key_arg username_arg password_arg =
     \<lparr>api_key = config_api_key cfg,
      api_url = ''https://data.nasdaq.com/api/v3/datatables/MER/F1'',
      username = config_username cfg,
      password = config_password cfg,
      raw_data = None,
      processed_data = None\<rparr>"

section \<open>The country codes\<close>

text \<open>\<open>_get_country_mapping\<close> (lines 211-242): the dictionary literal, entry by entry.\<close>

definition get_country_mapping :: "(string \<times> string) list" where
  "get_country_mapping =
     [(''AUS'', ''Australia''),
      (''BEL'', ''Belgium''),
      (''BHS'', ''Bahamas''),
      (''BMU'', ''Bermuda''),
      (''BRA'', ''Brazil''),
      (''CAN'', ''Canada''),
      (''CHE'', ''Switzerland''),
      (''CHL'', ''Chile''),
      (''CYM'', ''Cayman Islands''),
      (''DEU'', ''Germany''),
      (''DNK'', ''Denmark''),
      (''ESP'', ''Spain''),
      (''FIN'', ''Finland''),
      (''FRA'', ''France''),
      (''GBR'', ''United Kingdom''),
      (''HKG'', ''Hong Kong''),
      (''IDN'', ''Indonesia''),
      (''IND'', ''India''),
      (''IRL'', ''Ireland''),
      (''ISR'', ''Israel''),
      (''ITA'', ''Italy''),
      (''JPN'', ''Japan''),
      (''KOR'', ''South Korea''),
      (''LBR'', ''Liberia''),
      (''PAN'', ''Panama''),
      (''USA'', ''United States''),
      (''VGB'', ''British Virgin Islands'')]"

text \<open>
  \<open>Series.replace(mapping)\<close> on one cell: a value equal to a key of the dictionary becomes
  the key's value, every other value stays. The keys are strings, so only a string cell
  can equal one.
\<close>

definition replace :: "(string \<times> string) list \<Rightarrow> cell \<Rightarrow> cell" where
  "replace mapping c =
     (case c of
        Str s \<Rightarrow> (case map_of mapping s of Some v \<Rightarrow> Str v | None \<Rightarrow> c)
      | _ \<Rightarrow> c)"

section \<open>The pandas operations of \<open>process_data\<close>\<close>

text \<open>
  What pandas computes inside its calls is not part of this program. Three such
  computations are parameters of the model, so that what is proved holds however pandas
  carries them out.
  \<^item> The dtype inference of \<open>pd.DataFrame\<close>: a column is stored under one dtype, which
    may change its values (integers in a column that also holds floats or missing values
    become floats). \<open>infer col v\<close> is the value stored for the value \<open>v\<close> of the column
    \<open>col\<close>.
  \<^item> The reading of dates by \<open>pd.to_datetime(..., errors='coerce')\<close>: \<open>parse col\<close> is
    \<open>None\<close> when pandas refuses the column as a whole and raises ValueError (it does so
    for date strings with different UTC offsets); otherwise it is the reading of the
    values of the column, the timestamp of a value or \<open>None\<close> for a value that is no date.
  \<^item> The float64 arithmetic of \<open>mean()\<close>, per group and per window, further below.
\<close>

type_synonym dtype_inference = "cell list \<Rightarrow> cell \<Rightarrow> cell"

type_synonym date_parser = "cell list \<Rightarrow> (cell \<Rightarrow> int option) option"

text \<open>
  \<open>pd.DataFrame(data, columns=columns)\<close> on a list of row lists (line 115). pandas lays the
  rows out in a block as wide as the longest row, a shorter row filled up with missing
  values, and raises ValueError when that width is not the number of labels; then it
  stores every column under the dtype it infers for it. With no row at all the frame is
  empty and has the labels.
\<close>

definition pad_row :: "nat \<Rightarrow> cell list \<Rightarrow> cell list" where
  "pad_row k r = r @ replicate (k - length r) Null"

definition width :: "cell list list \<Rightarrow> nat" where
  "width rs = fold max (map length rs) 0"

definition store :: "dtype_inference \<Rightarrow> nat \<Rightarrow> cell list list \<Rightarrow> cell list list" where
  "store infer k rs =
     map (\<lambda>r. map (\<lambda>j. infer (map (\<lambda>r'. r' ! j) rs) (r ! j)) [0..<k]) rs"

definition DataFrame :: "dtype_inference \<Rightarrow> cell list list \<Rightarrow> string list \<Rightarrow> error + dataframe" where
  "DataFrame infer rs cols =
     (if rs = [] then Inr \<lparr>df_columns = cols, df_rows = []\<rparr>
      else if width rs \<noteq> length cols then Inl ValueError
      else Inr \<lparr>df_columns = cols,
                df_rows = store infer (width rs) (map (pad_row (width rs)) rs)\<rparr>)"

text \<open>The positions of a label among the labels of a frame (a label may occur twice).\<close>

definition positions :: "string \<Rightarrow> string list \<Rightarrow> nat list" where
  "positions name cols = filter (\<lambda>j. cols ! j = name) [0..<length cols]"

text \<open>
  \<open>pd.to_datetime(series, errors='coerce')\<close>: unless pandas refuses the column, every value
  becomes its timestamp or, when it is no date, NaT.
\<close>

definition coerce :: "int option \<Rightarrow> cell" where
  "coerce p = (case p of Some t \<Rightarrow> Timestamp t | None \<Rightarrow> NaT)"

definition to_datetime :: "date_parser \<Rightarrow> cell list \<Rightarrow> error + cell list" where
  "to_datetime parse col =
     (case parse col of
        None \<Rightarrow> Inl ValueError
      | Some reading \<Rightarrow> Inr (map (\<lambda>v. coerce (reading v)) col))"

text \<open>
  Line 120, \<open>df['reportdate'] = pd.to_datetime(df['reportdate'], errors='coerce')\<close>.
  \<open>df['reportdate']\<close> raises KeyError when no column has the label; when two have it, it
  is a frame, which \<open>to_datetime\<close> refuses with ValueError (it cannot assemble dates from
  duplicate keys).
\<close>

definition coerce_reportdate :: "date_parser \<Rightarrow> dataframe \<Rightarrow> error + dataframe" where
  "coerce_reportdate parse df =
     (case positions ''reportdate'' (df_columns df) of
        [] \<Rightarrow> Inl (KeyError ''reportdate'')
      | [j] \<Rightarrow>
          (case to_datetime parse (map (\<lambda>r. r ! j) (df_rows df)) of
             Inl e \<Rightarrow> Inl e
           | Inr col \<Rightarrow>
               Inr (df\<lparr>df_rows := map (\<lambda>(r, v). r[j := v]) (zip (df_rows df) col)\<rparr>))
      | _ \<Rightarrow> Inl ValueError)"

text \<open>Lines 123-133.\<close>

definition necessary_columns :: "string list" where
  "necessary_columns =
     [''reportid'', ''reportdate'', ''reporttype'', ''longname'', ''country'',
      ''region'', ''indicator'', ''statement'', ''amount'']"

text \<open>
  \<open>df[names]\<close> (line 134): KeyError when a name labels no column; otherwise, name by name,
  every column with that label (so a label that occurs twice yields two columns).
\<close>

definition getitem_list :: "dataframe \<Rightarrow> string list \<Rightarrow> error + dataframe" where
  "getitem_list df names =
     (case filter (\<lambda>n. n \<notin> set (df_columns df)) names of
        n # _ \<Rightarrow> Inl (KeyError n)
      | [] \<Rightarrow>
          (let js = concat (map (\<lambda>n. positions n (df_columns df)) names)
           in Inr \<lparr>df_columns = map (\<lambda>j. df_columns df ! j) js,
                   df_rows = map (\<lambda>r. map (\<lambda>j. r ! j) js) (df_rows df)\<rparr>))"

text \<open>
  Line 138, \<open>df['country'] = df['country'].replace(country_mapping)\<close>: the cells under the
  label \<open>country\<close> are replaced, all others stay.
\<close>

definition replace_country :: "dataframe \<Rightarrow> error + dataframe" where
  "replace_country df =
     (if ''country'' \<notin> set (df_columns df) then Inl (KeyError ''country'')
      else Inr (df\<lparr>df_rows :=
        map (\<lambda>r. map (\<lambda>(c, v). if c = ''country'' then replace get_country_mapping v else v)
                      (zip (df_columns df) r))
            (df_rows df)\<rparr>))"

text \<open>
  Lines 142-152, \<open>df.columns = [...]\<close>: ValueError unless the frame has nine columns; then
  the columns carry the nine new labels, in order.
\<close>

definition to_row :: "cell list \<Rightarrow> table_row" where
  "to_row r =
     \<lparr>report_id = r ! 0, report_date = r ! 1, report_type = r ! 2, company_name = r ! 3,
      country = r ! 4, region = r ! 5, indicator = r ! 6, statement = r ! 7, amount = r ! 8\<rparr>"

definition set_columns :: "dataframe \<Rightarrow> error + table_row list" where
  "set_columns df =
     (if length (df_columns df) \<noteq> 9 then Inl ValueError
      else Inr (map to_row (df_rows df)))"

text \<open>Lines 111-152: from the raw table to the frame \<open>df\<close> that the filter reads.\<close>

definition normalize_table ::
  "dtype_inference \<Rightarrow> date_parser \<Rightarrow> datatable \<Rightarrow> error + table_row list" where
  "normalize_table infer parse dt =
     (case DataFrame infer (data dt) (columns dt) of
        Inl e \<Rightarrow> Inl e
      | Inr df0 \<Rightarrow>
     (case coerce_reportdate parse df0 of
        Inl e \<Rightarrow> Inl e
      | Inr df1 \<Rightarrow>
     (case getitem_list df1 necessary_columns of
        Inl e \<Rightarrow> Inl e
      | Inr df2 \<Rightarrow>
     (case replace_country df2 of
        Inl e \<Rightarrow> Inl e
      | Inr df3 \<Rightarrow> set_columns df3))))"

text \<open>
  Lines 155-159: the rows whose indicator is \<open>EBITDA Margin\<close>, and of those the rows whose
  company is not \<open>Immutep Ltd\<close>. A boolean mask keeps the masked rows in their order.
\<close>

definition filtered_df :: "table_row list \<Rightarrow> table_row list" where
  "filtered_df df =
     (let kept = filter (\<lambda>r. indicator r = Str ''EBITDA Margin'') df
      in filter (\<lambda>r. company_name r \<noteq> Str ''Immutep Ltd'') kept)"

text \<open>
  \<open>process_data\<close> (lines 94-167): the value returned and the instance afterwards. Every
  exception of the body is caught (line 165) and turned into \<open>None\<close>; only the last two
  lines of the body write \<open>processed_data\<close>.
\<close>

definition process_data ::
  "dtype_inference \<Rightarrow> date_parser \<Rightarrow> analyzer \<Rightarrow> table_row list option \<times> analyzer" where
  "process_data infer parse self =
     (case raw_data self of
        None \<Rightarrow> (None, self)
      | Some dt \<Rightarrow>
          (case normalize_table infer parse dt of
             Inl e \<Rightarrow> (None, self)
           | Inr df \<Rightarrow>
               (Some (filtered_df df), self\<lparr>processed_data := Some (filtered_df df)\<rparr>)))"

section \<open>The aggregation and the smoothing of \<open>visualize_trends\<close>\<close>




definition numeric :: "cell \<Rightarrow> bool" where
  "numeric c = (case c of Integer n \<Rightarrow> True | Float x \<Rightarrow> True | Null \<Rightarrow> True | _ \<Rightarrow> False)"







section \<open>The raw table read row by row\<close>

text \<open>
  The value of row \<open>i\<close> of the raw data under a column name: the header is the index into
  the row, and a row too short to have the value has a missing one. The column of a name
  holds these values of all rows; what the frame stores for them is what the dtype
  inference makes of the column.
\<close>

definition raw_field :: "datatable \<Rightarrow> nat \<Rightarrow> string \<Rightarrow> cell" where
  "raw_field dt i name =
     (case map_of (zip (columns dt) (data dt ! i)) name of Some v \<Rightarrow> v | None \<Rightarrow> Null)"

definition raw_column :: "datatable \<Rightarrow> string \<Rightarrow> cell list" where
  "raw_column dt name = map (\<lambda>i. raw_field dt i name) [0..<length (data dt)]"

definition stored_field :: "dtype_inference \<Rightarrow> datatable \<Rightarrow> nat \<Rightarrow> string \<Rightarrow> cell" where
  "stored_field infer dt i name = infer (raw_column dt name) (raw_field dt i name)"

definition stored_column :: "dtype_inference \<Rightarrow> datatable \<Rightarrow> string \<Rightarrow> cell list" where
  "stored_column infer dt name = map (\<lambda>i. stored_field infer dt i name) [0..<length (data dt)]"

text \<open>
  What normalization is meant to make of row \<open>i\<close>: the nine named values, as stored,
  under their new names, the date coerced by the reading of the date column and the
  country code replaced.
\<close>

definition normalized_row ::
  "dtype_inference \<Rightarrow> (cell \<Rightarrow> int option) \<Rightarrow> datatable \<Rightarrow> nat \<Rightarrow> table_row" where
  "normalized_row infer reading dt i =
     \<lparr>report_id = stored_field infer dt i ''reportid'',
      report_date = coerce (reading (stored_field infer dt i ''reportdate'')),
      report_type = stored_field infer dt i ''reporttype'',
      company_name = stored_field infer dt i ''longname'',
      country = replace get_country_mapping (stored_field infer dt i ''country''),
      region = stored_field infer dt i ''region'',
      indicator = stored_field infer dt i ''indicator'',
      statement = stored_field infer dt i ''statement'',
      amount = stored_field infer dt i ''amount''\<rparr>"

text \<open>
  The shape of the raw tables that normalization accepts: each of the nine names labels
  exactly one column, and the longest row has one value per column (or there is no row).
\<close>

definition well_formed :: "datatable \<Rightarrow> bool" where
  "well_formed dt \<longleftrightarrow>
     list_all (\<lambda>n. count_list (columns dt) n = 1) necessary_columns \<and>
     (data dt = [] \<or> width (data dt) = length (columns dt))"

section \<open>Sample inputs\<close>

text \<open>
  A sample of the dtype inference, as \<open>pd.DataFrame\<close> applies it to the columns of the
  tables below: a column with a string is stored as it is; a column of numbers and
  missing values that holds a float or a missing value is stored as float64, each of its
  integers (here: of at most 64 bits) as the nearest double, a tie going to the even
  one; a column of integers alone is stored as it is.
\<close>

function bit_length :: "int \<Rightarrow> nat" where
  "bit_length n = (if n \<le> 0 then 0 else Suc (bit_length (n div 2)))"
  by pat_completeness auto
termination
  by (relation "measure nat") auto

definition float_of_int :: "int \<Rightarrow> float64" where
  "float_of_int n =
     (let a = \<bar>n\<bar>; k = bit_length a - 53
      in if k = 0 then Finite n 0
         else
           (let q = a div 2 ^ k; r = a mod 2 ^ k; half = 2 ^ (k - 1);
                q' = (if half < r \<or> (r = half \<and> odd q) then q + 1 else q)
            in Finite (sgn n * q') (int k)))"

definition float_or_missing :: "cell \<Rightarrow> bool" where
  "float_or_missing c = (case c of Null \<Rightarrow> True | Float x \<Rightarrow> True | _ \<Rightarrow> False)"

definition sample_infer :: dtype_inference where
  "sample_infer col v =
     (if list_all numeric col \<and> list_ex float_or_missing col
      then (case v of
              Integer n \<Rightarrow> if \<bar>n\<bar> < 2 ^ 63 then Float (float_of_int n) else v
            | _ \<Rightarrow> v)
      else v)"

text \<open>
  A sample date reader: it knows 15 January 2020, written without a UTC offset and at
  midnight with the offsets +01:00 and +02:00 (timestamps in nanoseconds since 1970),
  and no other value; as pandas does, it refuses a column that holds date strings with
  two different offsets.
\<close>

definition sample_reading :: "cell \<Rightarrow> int option" where
  "sample_reading v =
     (if v = Str ''2020-01-15'' then Some 1579046400000000000
      else if v = Str ''2020-01-15T00:00:00+01:00'' then Some 1579042800000000000
      else if v = Str ''2020-01-15T00:00:00+02:00'' then Some 1579039200000000000
      else None)"

definition sample_parse :: date_parser where
  "sample_parse col =
     (if Str ''2020-01-15T00:00:00+01:00'' \<in> set col \<and>
         Str ''2020-01-15T00:00:00+02:00'' \<in> set col
      then None else Some sample_reading)"

text \<open>
  A raw table of three rows, the second with a date that is none and the company that
  the filter removes, the third with another indicator. The amounts are the floats
  12.5, 3.5 and 100.25.
\<close>

definition sample_table :: datatable where
  "sample_table =
     \<lparr>columns = necessary_columns,
      data =
        [[Str ''R1'', Str ''2020-01-15'', Str ''10-K'', Str ''Acme'', Str ''USA'', Str ''NA'',
          Str ''EBITDA Margin'', Str ''IS'', Float (Finite 25 (- 1))],
         [Str ''R2'', Str ''not-a-date'', Str ''10-K'', Str ''Immutep Ltd'', Str ''AUS'',
          Str ''OC'', Str ''EBITDA Margin'', Str ''IS'', Float (Finite 7 (- 1))],
         [Str ''R3'', Str ''2020-01-15'', Str ''10-Q'', Str ''Acme'', Str ''XXX'', Str ''NA'',
          Str ''Revenue'', Str ''IS'', Float (Finite 401 (- 2))]]\<rparr>"

text \<open>What normalization makes of the sample table.\<close>

definition sample_rows :: "table_row list" where
  "sample_rows =
     [\<lparr>report_id = Str ''R1'', report_date = Timestamp 1579046400000000000,
       report_type = Str ''10-K'', company_name = Str ''Acme'',
       country = Str ''United States'', region = Str ''NA'',
       indicator = Str ''EBITDA Margin'', statement = Str ''IS'',
       amount = Float (Finite 25 (- 1))\<rparr>,
      \<lparr>report_id = Str ''R2'', report_date = NaT,
       report_type = Str ''10-K'', company_name = Str ''Immutep Ltd'',
       country = Str ''Australia'', region = Str ''OC'',
       indicator = Str ''EBITDA Margin'', statement = Str ''IS'',
       amount = Float (Finite 7 (- 1))\<rparr>,
      \<lparr>report_id = Str ''R3'', report_date = Timestamp 1579046400000000000,
       report_type = Str ''10-Q'', company_name = Str ''Acme'',
       country = Str ''XXX'', region = Str ''NA'',
       indicator = Str ''Revenue'', statement = Str ''IS'',
       amount = Float (Finite 401 (- 2))\<rparr>]"

text \<open>
  The sample table with the label \<open>amount\<close> declared twice (every row has a value for each
  of the ten columns), and the sample table with one value too many in every row.
\<close>

definition twice_amount_table :: datatable where
  "twice_amount_table =
     \<lparr>columns = necessary_columns @ [''amount''],
      data = map (\<lambda>r. r @ [Integer 0]) (data sample_table)\<rparr>"

definition long_rows_table :: datatable where
  "long_rows_table =
     \<lparr>columns = necessary_columns,
      data = map (\<lambda>r. r @ [Integer 0]) (data sample_table)\<rparr>"

text \<open>
  A table of two rows whose dates are the same day at midnight, once with the UTC offset
  +01:00 and once with +02:00.
\<close>

definition two_offsets_table :: datatable where
  "two_offsets_table =
     \<lparr>columns = necessary_columns,
      data =
        [[Str ''R1'', Str ''2020-01-15T00:00:00+01:00'', Str ''10-K'', Str ''Acme'', Str ''USA'',
          Str ''NA'', Str ''EBITDA Margin'', Str ''IS'', Float (Finite 25 (- 1))],
         [Str ''R2'', Str ''2020-01-15T00:00:00+02:00'', Str ''10-K'', Str ''Acme'', Str ''USA'',
          Str ''NA'', Str ''EBITDA Margin'', Str ''IS'', Float (Finite 7 (- 1))]]\<rparr>"

text \<open>
  A table of two rows: the report id and the amount of the first are the integer
  \<open>2 ^ 53 + 1\<close>; the second row has no report id and the amount 0.5.
\<close>

definition big_integer_table :: datatable where
  "big_integer_table =
     \<lparr>columns = necessary_columns,
      data =
        [[Integer 9007199254740993, Str ''2020-01-15'', Str ''10-K'', Str ''Acme'', Str ''USA'',
          Str ''NA'', Str ''EBITDA Margin'', Str ''IS'', Integer 9007199254740993],
         [Null, Str ''2020-01-15'', Str ''10-K'', Str ''Acme'', Str ''USA'',
          Str ''NA'', Str ''EBITDA Margin'', Str ''IS'', Float (Finite 1 (- 1))]]\<rparr>"

text \<open>
  The sample table with an empty country code in its first row and none in its second.
\<close>

definition blank_country_table :: datatable where
  "blank_country_table =
     \<lparr>columns = necessary_columns,
      data = [(data sample_table ! 0)[4 := Str []], (data sample_table ! 1)[4 := Null],
              data sample_table ! 2]\<rparr>"

text \<open>The sample table without its last column, \<open>amount\<close>.\<close>

definition no_amount_table :: datatable where
  "no_amount_table =
     \<lparr>columns = butlast necessary_columns,
      data = map butlast (data sample_table)\<rparr>"





text \<open>
  An instance that has fetched the table without \<open>amount\<close> and still holds the rows of an
  earlier run.
\<close>

definition sample_analyzer :: analyzer where
  "sample_analyzer =
     (init \<lparr>config_api_key = ''K'', config_username = ''U'', config_password = ''P''\<rparr>
        ''K'' ''U'' ''P'')
     \<lparr>raw_data := Some no_amount_table, processed_data := Some sample_rows\<rparr>"

section \<open>Positions, rows and widths\<close>

lemma set_positions: "set (positions n cols) = {j. j < length cols \<and> cols ! j = n}"
  by (auto simp: positions_def)

lemma positions_Nil_iff: "positions n cols = [] \<longleftrightarrow> n \<notin> set cols"
  by (auto simp: positions_def filter_empty_conv in_set_conv_nth)

lemma positions_snoc:
  "positions n (cols @ [c]) = positions n cols @ (if c = n then [length cols] else [])"
  by (auto simp: positions_def nth_append intro: filter_cong)

lemma length_positions: "length (positions n cols) = count_list cols n"
proof (induction cols rule: rev_induct)
  case Nil
  show ?case by (simp add: positions_def)
next
  case (snoc c cols)
  then show ?case by (simp add: positions_snoc)
qed

lemma positions_singleD:
  assumes "positions n cols = [j]"
  shows "j < length cols" and "cols ! j = n" and "\<And>i. i < length cols \<Longrightarrow> cols ! i = n \<Longrightarrow> i = j"
proof -
  have s: "{i. i < length cols \<and> cols ! i = n} = {j}"
    using set_positions [of n cols] assms by simp
  then show "j < length cols" "cols ! j = n" by auto
  fix i assume "i < length cols" "cols ! i = n"
  then have "i \<in> {i. i < length cols \<and> cols ! i = n}" by simp
  then show "i = j" using s by simp
qed

lemma map_of_zip_first:
  "j < length cols \<Longrightarrow> cols ! j = n \<Longrightarrow> (\<And>i. i < j \<Longrightarrow> cols ! i \<noteq> n) \<Longrightarrow>
     map_of (zip cols r) n = (if j < length r then Some (r ! j) else None)"
proof (induction cols arbitrary: j r)
  case Nil
  then show ?case by simp
next
  case (Cons c cols)
  show ?case
  proof (cases r)
    case Nil
    then show ?thesis by simp
  next
    case (Cons v vs)
    show ?thesis
    proof (cases j)
      case 0
      then show ?thesis using Cons.prems Cons by simp
    next
      case (Suc k)
      have "c \<noteq> n" using Cons.prems(3) [of 0] Suc by simp
      moreover have "map_of (zip cols vs) n = (if k < length vs then Some (vs ! k) else None)"
      proof (rule Cons.IH)
        show "k < length cols" using Cons.prems(1) Suc by simp
        show "cols ! k = n" using Cons.prems(2) Suc by simp
        show "\<And>i. i < k \<Longrightarrow> cols ! i \<noteq> n" using Cons.prems(3) Suc by fastforce
      qed
      ultimately show ?thesis using Suc Cons by simp
    qed
  qed
qed

lemma fold_max_ge: "(a::nat) \<le> fold max xs a"
proof (induction xs arbitrary: a)
  case Nil
  show ?case by simp
next
  case (Cons x xs)
  have "a \<le> max x a" by simp
  also have "\<dots> \<le> fold max xs (max x a)" by (rule Cons.IH)
  finally show ?case by simp
qed

lemma fold_max_mem: "(x::nat) \<in> set xs \<Longrightarrow> x \<le> fold max xs a"
proof (induction xs arbitrary: a)
  case Nil
  then show ?case by simp
next
  case (Cons y ys)
  show ?case
  proof (cases "x = y")
    case True
    have "x \<le> max y a" using True by simp
    also have "\<dots> \<le> fold max ys (max y a)" by (rule fold_max_ge)
    finally show ?thesis by simp
  next
    case False
    then have "x \<in> set ys" using Cons.prems by simp
    then show ?thesis using Cons.IH by simp
  qed
qed

lemma length_le_width: "r \<in> set rs \<Longrightarrow> length r \<le> width rs"
  unfolding width_def by (rule fold_max_mem) simp


lemma concat_ge_length:
  "\<forall>n\<in>set names. f n \<noteq> [] \<Longrightarrow> length names \<le> length (concat (map f names))"
proof (induction names)
  case Nil
  show ?case by simp
next
  case (Cons a ns)
  have "1 \<le> length (f a)" using Cons.prems by (cases "f a") simp_all
  moreover have "length ns \<le> length (concat (map f ns))" using Cons by simp
  ultimately show ?case by simp
qed

lemma concat_singletons:
  "\<forall>n\<in>set names. f n \<noteq> [] \<Longrightarrow> length (concat (map f names)) = length names \<Longrightarrow>
     \<forall>n\<in>set names. length (f n) = 1"
proof (induction names)
  case Nil
  show ?case by simp
next
  case (Cons a ns)
  have a: "1 \<le> length (f a)" using Cons.prems(1) by (cases "f a") simp_all
  have ns: "length ns \<le> length (concat (map f ns))"
    using Cons.prems(1) by (intro concat_ge_length) simp
  have sum: "length (f a) + length (concat (map f ns)) = Suc (length ns)"
    using Cons.prems(2) by simp
  have "length (f a) = 1" using a ns sum by linarith
  moreover have "length (concat (map f ns)) = length ns" using a ns sum by linarith
  ultimately show ?case using Cons by simp
qed

lemma pad_row_nth:
  assumes "positions n cols = [q]" and "length r \<le> length cols"
  shows "pad_row (length cols) r ! q = (case map_of (zip cols r) n of Some v \<Rightarrow> v | None \<Rightarrow> Null)"
proof -
  note q = positions_singleD [OF assms(1)]
  have first: "cols ! i \<noteq> n" if "i < q" for i
  proof
    assume "cols ! i = n"
    moreover have "i < length cols" using that q(1) by simp
    ultimately have "i = q" by (rule q(3) [rotated])
    then show False using that by simp
  qed
  have m: "map_of (zip cols r) n = (if q < length r then Some (r ! q) else None)"
    using q(1) q(2) first by (rule map_of_zip_first)
  show ?thesis
  proof (cases "q < length r")
    case True
    then show ?thesis by (simp add: m pad_row_def nth_append)
  next
    case False
    then have "q - length r < length cols - length r" using q(1) assms(2) by linarith
    then show ?thesis using False by (simp add: m pad_row_def nth_append)
  qed
qed

lemma length_pad_row: "length r \<le> k \<Longrightarrow> length (pad_row k r) = k"
  by (simp add: pad_row_def)

lemma padded_column:
  assumes p: "positions n (columns dt) = [q]"
    and w: "data dt = [] \<or> width (data dt) = length (columns dt)"
  shows "map (\<lambda>r. r ! q) (map (pad_row (length (columns dt))) (data dt)) = raw_column dt n"
proof (rule nth_equalityI)
  show "length (map (\<lambda>r. r ! q) (map (pad_row (length (columns dt))) (data dt)))
      = length (raw_column dt n)"
    by (simp add: raw_column_def)
  fix k assume "k < length (map (\<lambda>r. r ! q) (map (pad_row (length (columns dt))) (data dt)))"
  then have k: "k < length (data dt)" by simp
  then have "data dt ! k \<in> set (data dt)" by simp
  then have "length (data dt ! k) \<le> width (data dt)" by (rule length_le_width)
  moreover have "width (data dt) = length (columns dt)" using w k by auto
  ultimately have "length (data dt ! k) \<le> length (columns dt)" by simp
  from pad_row_nth [OF p this] k
  show "map (\<lambda>r. r ! q) (map (pad_row (length (columns dt))) (data dt)) ! k = raw_column dt n ! k"
    by (simp add: raw_column_def raw_field_def)
qed

lemma stored_nth:
  assumes p: "positions n (columns dt) = [q]"
    and w: "data dt = [] \<or> width (data dt) = length (columns dt)"
    and i: "i < length (data dt)"
  shows "store infer (length (columns dt)) (map (pad_row (length (columns dt))) (data dt)) ! i ! q
      = stored_field infer dt i n"
proof -
  have q: "q < length (columns dt)" using p by (rule positions_singleD(1))
  have "raw_column dt n ! i = raw_field dt i n" using i by (simp add: raw_column_def)
  then have "map (pad_row (length (columns dt))) (data dt) ! i ! q = raw_field dt i n"
    using padded_column [OF p w] i by (metis length_map nth_map)
  then show ?thesis
    using i q padded_column [OF p w] by (simp add: store_def stored_field_def)
qed

lemma length_stored_row:
  "i < length rs \<Longrightarrow> length (store infer k rs ! i) = k"
  by (simp add: store_def)

lemma length_store: "length (store infer k rs) = length rs"
  by (simp add: store_def)

lemma DataFrame_InrD:
  assumes "DataFrame infer rs cols = Inr df"
  shows "df_columns df = cols"
    and "df_rows df = store infer (length cols) (map (pad_row (length cols)) rs)"
    and "rs = [] \<or> width rs = length cols"
  using assms by (auto simp: DataFrame_def store_def split: if_splits)

lemma coerce_reportdate_InrD:
  assumes "coerce_reportdate parse df = Inr df'"
  obtains j reading where "positions ''reportdate'' (df_columns df) = [j]"
    and "parse (map (\<lambda>r. r ! j) (df_rows df)) = Some reading"
    and "df_columns df' = df_columns df"
    and "df_rows df' = map (\<lambda>(r, v). r[j := v])
           (zip (df_rows df) (map (\<lambda>v. coerce (reading v)) (map (\<lambda>r. r ! j) (df_rows df))))"
  using assms
  by (auto simp: coerce_reportdate_def to_datetime_def split: list.splits option.splits sum.splits)

lemma getitem_list_InrD:
  assumes "getitem_list df names = Inr df'"
  shows "\<forall>n\<in>set names. n \<in> set (df_columns df)"
    and "df_columns df' = map (\<lambda>j. df_columns df ! j) (concat (map (\<lambda>n. positions n (df_columns df)) names))"
    and "df_rows df' = map (\<lambda>r. map (\<lambda>j. r ! j) (concat (map (\<lambda>n. positions n (df_columns df)) names))) (df_rows df)"
  using assms by (auto simp: getitem_list_def Let_def filter_empty_conv split: list.splits)

lemma replace_country_InrD:
  assumes "replace_country df = Inr df'"
  shows "df_columns df' = df_columns df"
    and "df_rows df' = map (\<lambda>r. map (\<lambda>(c, v). if c = ''country'' then replace get_country_mapping v else v)
                      (zip (df_columns df) r)) (df_rows df)"
  using assms by (auto simp: replace_country_def split: if_splits)

lemma set_columns_InrD:
  assumes "set_columns df = Inr t"
  shows "length (df_columns df) = 9" and "t = map to_row (df_rows df)"
  using assms by (auto simp: set_columns_def split: if_splits)

lemma concat_map_single: "\<forall>n\<in>set ns. f n = [p n] \<Longrightarrow> concat (map f ns) = map p ns"
  by (induction ns) simp_all

lemma selected_labels:
  "\<forall>n\<in>set names. length (positions n cols) = 1 \<Longrightarrow>
     map (\<lambda>j. cols ! j) (concat (map (\<lambda>n. positions n cols) names)) = names"
proof (induction names)
  case Nil
  show ?case by simp
next
  case (Cons a ns)
  from Cons.prems obtain p where p: "positions a cols = [p]"
    by (cases "positions a cols") auto
  have "cols ! p = a" using p by (rule positions_singleD(2))
  then show ?case using Cons p by simp
qed

section \<open>Normalization, row by row\<close>

lemma normalize_rows:
  assumes ok: "normalize_table infer parse dt = Inr t"
  obtains reading where "parse (stored_column infer dt ''reportdate'') = Some reading"
    and "t = map (normalized_row infer reading dt) [0..<length (data dt)]"
proof -
  define cols where "cols = columns dt"
  define rs where "rs = data dt"
  define pos where "pos n = hd (positions n cols)" for n
  define js where "js = concat (map (\<lambda>n. positions n cols) necessary_columns)"
  obtain df0 df1 df2 df3 where
    d0: "DataFrame infer rs cols = Inr df0" and
    d1: "coerce_reportdate parse df0 = Inr df1" and
    d2: "getitem_list df1 necessary_columns = Inr df2" and
    d3: "replace_country df2 = Inr df3" and
    d4: "set_columns df3 = Inr t"
    using ok by (auto simp: normalize_table_def cols_def rs_def split: sum.splits)
  note f0 = DataFrame_InrD [OF d0]
  have shape: "data dt = [] \<or> width (data dt) = length (columns dt)"
    using f0(3) by (simp add: rs_def cols_def)
  obtain j reading where pj: "positions ''reportdate'' cols = [j]"
    and rd: "parse (map (\<lambda>r. r ! j) (df_rows df0)) = Some reading"
    and c1: "df_columns df1 = cols"
    and r1: "df_rows df1 = map (\<lambda>(r, v). r[j := v])
           (zip (df_rows df0) (map (\<lambda>v. coerce (reading v)) (map (\<lambda>r. r ! j) (df_rows df0))))"
    using coerce_reportdate_InrD [OF d1] f0(1) by metis
  note f2 = getitem_list_InrD [OF d2, unfolded c1, folded js_def]
  note f3 = replace_country_InrD [OF d3]
  note f4 = set_columns_InrD [OF d4]
  \<comment> \<open>every name has exactly one position\<close>
  have len_js: "length js = length necessary_columns"
    using f4(1) f3(1) f2(2) by (simp add: necessary_columns_def)
  have nonempty: "\<forall>n\<in>set necessary_columns. positions n cols \<noteq> []"
    using f2(1) by (simp add: positions_Nil_iff)
  have "\<forall>n\<in>set necessary_columns. length (positions n cols) = 1"
    using nonempty len_js unfolding js_def by (rule concat_singletons)
  then have single: "positions n cols = [pos n]" if "n \<in> set necessary_columns" for n
    using that unfolding pos_def by (cases "positions n cols") auto
  have js: "js = map pos necessary_columns"
    unfolding js_def by (rule concat_map_single) (simp add: single)
  have j: "j = pos ''reportdate''"
    using single [of "''reportdate''"] pj by (simp add: necessary_columns_def)
  have label: "cols ! pos n = n" if "n \<in> set necessary_columns" for n
    using positions_singleD(2) [OF single [OF that]] .
  have cols2: "df_columns df2 = necessary_columns"
    unfolding f2(2) js by (simp add: label map_idI)
  \<comment> \<open>the date column as stored\<close>
  have stored: "df_rows df0 ! i ! pos n = stored_field infer dt i n"
    if "n \<in> set necessary_columns" "i < length rs" for n i
    using stored_nth [OF single [OF that(1), unfolded cols_def] shape, of i infer] that(2)
    by (simp add: f0(2) cols_def rs_def)
  have len0: "length (df_rows df0) = length rs"
    by (simp add: f0(2) length_store)
  have col0: "map (\<lambda>r. r ! j) (df_rows df0) = stored_column infer dt ''reportdate''"
  proof (rule nth_equalityI)
    show "length (map (\<lambda>r. r ! j) (df_rows df0)) = length (stored_column infer dt ''reportdate'')"
      by (simp add: len0 stored_column_def rs_def)
    fix k assume "k < length (map (\<lambda>r. r ! j) (df_rows df0))"
    then have k: "k < length rs" by (simp add: len0)
    then show "map (\<lambda>r. r ! j) (df_rows df0) ! k = stored_column infer dt ''reportdate'' ! k"
      using stored [of "''reportdate''" k]
      by (simp add: len0 j stored_column_def rs_def necessary_columns_def)
  qed
  have reading: "parse (stored_column infer dt ''reportdate'') = Some reading"
    using rd unfolding col0 .
  \<comment> \<open>the rows, one by one\<close>
  have len_t: "length t = length rs"
    by (simp add: f4(2) f3(2) f2(3) r1 len0)
  have row: "t ! i = normalized_row infer reading dt i" if i: "i < length rs" for i
  proof -
    define r0 where "r0 = df_rows df0 ! i"
    have len_r0: "length r0 = length cols"
      unfolding r0_def f0(2) using i by (simp add: length_stored_row)
    have raw: "r0 ! pos n = stored_field infer dt i n" if "n \<in> set necessary_columns" for n
      unfolding r0_def using that i by (rule stored)
    define v where "v = coerce (reading (stored_field infer dt i ''reportdate''))"
    have "r0 ! j = stored_field infer dt i ''reportdate''"
      using raw [of "''reportdate''"] by (simp add: j necessary_columns_def)
    then have r1i: "df_rows df1 ! i = r0[j := v]"
      using i by (simp add: r1 len0 r0_def v_def)
    have other: "pos n \<noteq> j" if "n \<in> set necessary_columns" "n \<noteq> ''reportdate''" for n
      using label [OF that(1)] that(2) positions_singleD(2) [OF pj] by auto
    have ti: "t ! i = to_row (map (\<lambda>(c, v). if c = ''country'' then replace get_country_mapping v else v)
                      (zip necessary_columns (map (\<lambda>k. (r0[j := v]) ! k) js)))"
      using i r1i by (simp add: f4(2) f3(2) f2(3) cols2 r1 len0)
    have jb: "j < length r0" using positions_singleD(1) [OF pj] len_r0 by simp
    have upd: "\<forall>n\<in>set necessary_columns.
        (r0[j := v]) ! pos n = (if n = ''reportdate'' then v else stored_field infer dt i n)"
    proof
      fix n assume n: "n \<in> set necessary_columns"
      show "(r0[j := v]) ! pos n = (if n = ''reportdate'' then v else stored_field infer dt i n)"
      proof (cases "n = ''reportdate''")
        case True
        then show ?thesis using jb j by simp
      next
        case False
        then show ?thesis using other [OF n False] raw [OF n] by simp
      qed
    qed
    show ?thesis
      unfolding ti js using upd
      by (simp add: necessary_columns_def to_row_def normalized_row_def v_def)
  qed
  have "t = map (normalized_row infer reading dt) [0..<length (data dt)]"
  proof (rule nth_equalityI)
    show "length t = length (map (normalized_row infer reading dt) [0..<length (data dt)])"
      using len_t by (simp add: rs_def)
    fix i assume "i < length t"
    then show "t ! i = map (normalized_row infer reading dt) [0..<length (data dt)] ! i"
      using row len_t by (simp add: rs_def)
  qed
  with reading show ?thesis by (rule that)
qed

lemma normalize_well_formed:
  assumes ok: "normalize_table infer parse dt = Inr t"
  shows "well_formed dt"
proof -
  obtain df0 df1 df2 df3 where
    d0: "DataFrame infer (data dt) (columns dt) = Inr df0" and
    d1: "coerce_reportdate parse df0 = Inr df1" and
    d2: "getitem_list df1 necessary_columns = Inr df2" and
    d3: "replace_country df2 = Inr df3" and
    d4: "set_columns df3 = Inr t"
    using ok by (auto simp: normalize_table_def split: sum.splits)
  note f0 = DataFrame_InrD [OF d0]
  have c1: "df_columns df1 = columns dt"
    using coerce_reportdate_InrD [OF d1] f0(1) by metis
  note f2 = getitem_list_InrD [OF d2, unfolded c1]
  have "length (concat (map (\<lambda>n. positions n (columns dt)) necessary_columns)) = length necessary_columns"
    using set_columns_InrD(1) [OF d4] replace_country_InrD(1) [OF d3] f2(2)
    by (simp add: necessary_columns_def)
  moreover have "\<forall>n\<in>set necessary_columns. positions n (columns dt) \<noteq> []"
    using f2(1) by (simp add: positions_Nil_iff)
  ultimately have "\<forall>n\<in>set necessary_columns. length (positions n (columns dt)) = 1"
    by (intro concat_singletons)
  then show ?thesis
    using f0(3) by (simp add: well_formed_def list_all_iff length_positions)
qed

lemma well_formed_normalize:
  assumes shape: "well_formed dt"
    and reading: "parse (stored_column infer dt ''reportdate'') = Some reading"
  shows "\<exists>t. normalize_table infer parse dt = Inr t"
proof -
  have one: "\<forall>n\<in>set necessary_columns. length (positions n (columns dt)) = 1"
    using shape by (simp add: well_formed_def list_all_iff length_positions)
  then have "length (positions ''reportdate'' (columns dt)) = 1"
    by (simp add: necessary_columns_def)
  then obtain j where pj: "positions ''reportdate'' (columns dt) = [j]"
    by (cases "positions ''reportdate'' (columns dt)") auto
  have w: "data dt = [] \<or> width (data dt) = length (columns dt)"
    using shape by (simp add: well_formed_def)
  have "\<exists>df0. DataFrame infer (data dt) (columns dt) = Inr df0"
    using w by (cases "data dt = []") (simp_all add: DataFrame_def)
  then obtain df0 where d0: "DataFrame infer (data dt) (columns dt) = Inr df0" by blast
  note f0 = DataFrame_InrD [OF d0]
  have col0: "map (\<lambda>r. r ! j) (df_rows df0) = stored_column infer dt ''reportdate''"
  proof (rule nth_equalityI)
    show "length (map (\<lambda>r. r ! j) (df_rows df0)) = length (stored_column infer dt ''reportdate'')"
      by (simp add: f0(2) length_store stored_column_def)
    fix k assume "k < length (map (\<lambda>r. r ! j) (df_rows df0))"
    then have k: "k < length (data dt)" by (simp add: f0(2) length_store)
    then show "map (\<lambda>r. r ! j) (df_rows df0) ! k = stored_column infer dt ''reportdate'' ! k"
      using stored_nth [OF pj w k, of infer]
      by (simp add: f0(2) length_store stored_column_def)
  qed
  obtain df1 where d1: "coerce_reportdate parse df0 = Inr df1"
    by (simp add: coerce_reportdate_def f0(1) pj to_datetime_def col0 reading)
  have c1: "df_columns df1 = columns dt"
    using coerce_reportdate_InrD [OF d1] f0(1) by metis
  have "\<forall>n\<in>set necessary_columns. positions n (columns dt) \<noteq> []"
    using one by auto
  then have present: "filter (\<lambda>n. n \<notin> set (columns dt)) necessary_columns = []"
    by (simp add: positions_Nil_iff filter_empty_conv)
  obtain df2 where d2: "getitem_list df1 necessary_columns = Inr df2"
    by (simp add: getitem_list_def c1 present Let_def)
  have c2: "df_columns df2 = necessary_columns"
    using getitem_list_InrD(2) [OF d2] selected_labels [OF one] by (simp add: c1)
  obtain df3 where d3: "replace_country df2 = Inr df3"
    by (simp add: replace_country_def c2 necessary_columns_def)
  have c3: "df_columns df3 = necessary_columns"
    using replace_country_InrD(1) [OF d3] c2 by simp
  have "\<exists>t. set_columns df3 = Inr t"
    by (simp add: set_columns_def c3 necessary_columns_def)
  then show ?thesis
    by (simp add: normalize_table_def d0 d1 d2 d3)
qed

lemma length_normalize:
  "normalize_table infer parse dt = Inr t \<Longrightarrow> length t = length (data dt)"
  by (erule normalize_rows) simp

section \<open>Floats, aggregation and smoothing\<close>












section \<open>The sample inputs, evaluated\<close>

lemma normalize_sample: "normalize_table sample_infer sample_parse sample_table = Inr sample_rows"
  by code_simp

lemma well_formed_sample: "well_formed sample_table"
  by code_simp

lemma dates_sample:
  "map (sample_infer (raw_column sample_table ''reportdate'')) (raw_column sample_table ''reportdate'')
     = [Str ''2020-01-15'', Str ''not-a-date'', Str ''2020-01-15'']"
  by code_simp

lemma reading_sample:
  "sample_parse (map (sample_infer (raw_column sample_table ''reportdate''))
     (raw_column sample_table ''reportdate'')) = Some sample_reading"
  unfolding dates_sample by (simp add: sample_parse_def)

section \<open>Failures of normalization\<close>

lemma DataFrame_InlD: "DataFrame infer rs cols = Inl e \<Longrightarrow> e = ValueError"
  by (auto simp: DataFrame_def split: if_splits)

lemma coerce_reportdate_InlD:
  "coerce_reportdate parse df = Inl e \<Longrightarrow>
     e = ValueError \<or> (e = KeyError ''reportdate'' \<and> ''reportdate'' \<notin> set (df_columns df))"
  by (auto simp: coerce_reportdate_def to_datetime_def positions_Nil_iff
      split: list.splits option.splits sum.splits)

lemma getitem_list_InlD:
  "getitem_list df names = Inl e \<Longrightarrow> \<exists>m\<in>set names. m \<notin> set (df_columns df) \<and> e = KeyError m"
proof -
  assume a: "getitem_list df names = Inl e"
  then obtain m ms where f: "filter (\<lambda>n. n \<notin> set (df_columns df)) names = m # ms"
    by (auto simp: getitem_list_def Let_def split: list.splits)
  then have "m \<in> set (filter (\<lambda>n. n \<notin> set (df_columns df)) names)" by simp
  moreover have "e = KeyError m" using a f by (simp add: getitem_list_def)
  ultimately show ?thesis by auto
qed

lemma getitem_list_missing:
  assumes "n \<in> set names" and "n \<notin> set (df_columns df)"
  shows "isl (getitem_list df names)"
proof -
  have "n \<in> set (filter (\<lambda>n. n \<notin> set (df_columns df)) names)" using assms by simp
  then show ?thesis
    by (cases "filter (\<lambda>n. n \<notin> set (df_columns df)) names") (simp_all add: getitem_list_def)
qed

lemma normalize_missing_column:
  assumes n: "n \<in> set necessary_columns" and absent: "n \<notin> set (columns dt)"
  shows "\<exists>e. normalize_table infer parse dt = Inl e \<and>
           (e = ValueError \<or> (\<exists>m\<in>set necessary_columns. m \<notin> set (columns dt) \<and> e = KeyError m))"
proof (cases "DataFrame infer (data dt) (columns dt)")
  case (Inl e)
  then show ?thesis using DataFrame_InlD [OF Inl] by (simp add: normalize_table_def)
next
  case df0: (Inr df0)
  have c0: "df_columns df0 = columns dt" using df0 by (rule DataFrame_InrD(1))
  show ?thesis
  proof (cases "coerce_reportdate parse df0")
    case (Inl e)
    then have "e = ValueError \<or> (e = KeyError ''reportdate'' \<and> ''reportdate'' \<notin> set (columns dt))"
      using coerce_reportdate_InlD [OF Inl] c0 by simp
    moreover have "''reportdate'' \<in> set necessary_columns" by (simp add: necessary_columns_def)
    ultimately show ?thesis using df0 Inl by (auto simp: normalize_table_def)
  next
    case df1: (Inr df1)
    have c1: "df_columns df1 = columns dt"
      using coerce_reportdate_InrD [OF df1] c0 by metis
    have "isl (getitem_list df1 necessary_columns)"
      using n absent c1 by (intro getitem_list_missing [of n]) simp_all
    then obtain e where e: "getitem_list df1 necessary_columns = Inl e"
      by (cases "getitem_list df1 necessary_columns") simp_all
    from getitem_list_InlD [OF e] c1
    have "\<exists>m\<in>set necessary_columns. m \<notin> set (columns dt) \<and> e = KeyError m" by simp
    then show ?thesis using df0 df1 e by (simp add: normalize_table_def)
  qed
qed

section \<open>The filter and the country codes\<close>

lemma filtered_df_filter:
  "filtered_df df =
     filter (\<lambda>r. indicator r = Str ''EBITDA Margin'' \<and> company_name r \<noteq> Str ''Immutep Ltd'') df"
  by (simp add: filtered_df_def conj_commute)

lemma distinct_country_codes: "distinct (map fst get_country_mapping)"
  by (simp add: get_country_mapping_def)

lemma country_names_nonempty: "\<forall>(code, name)\<in>set get_country_mapping. name \<noteq> []"
  by (simp add: get_country_mapping_def)

section \<open>The properties of the specification\<close>

text \<open>
  C1. For every table of normalized rows, the filter keeps exactly the rows whose
  indicator equals \<open>EBITDA Margin\<close> (compared as strings, so case matters) and whose
  company name is not \<open>Immutep Ltd\<close>, and the rows kept stand in the order they had in the
  input.
\<close>

theorem filter_keeps_exactly:
  "filtered_df df =
     filter (\<lambda>r. indicator r = Str ''EBITDA Margin'' \<and> company_name r \<noteq> Str ''Immutep Ltd'') df
   \<and> subseq (filtered_df df) df"
proof
  show eq: "filtered_df df =
     filter (\<lambda>r. indicator r = Str ''EBITDA Margin'' \<and> company_name r \<noteq> Str ''Immutep Ltd'') df"
    by (simp add: filtered_df_def conj_commute)
  show "subseq (filtered_df df) df"
    unfolding eq by (rule subseq_filter_left)
qed

text \<open>
  Of the three sample rows only the first is kept, and it is dropped too when its
  indicator is written in lower case.
\<close>

theorem filter_keeps_exactly_witness:
  "filtered_df sample_rows = [sample_rows ! 0] \<and> subseq [sample_rows ! 0] sample_rows \<and>
   filtered_df [(sample_rows ! 0)\<lparr>indicator := Str ''ebitda margin''\<rparr>] = []"
  using filter_keeps_exactly [of sample_rows]
    filter_keeps_exactly [of "[(sample_rows ! 0)\<lparr>indicator := Str ''ebitda margin''\<rparr>]"]
  by (simp add: sample_rows_def)







text \<open>
  C4, as stated, fails: the empty code and the missing code are no keys of the map and
  pass through, so the country of a row can be empty or undefined.
\<close>

theorem country_remap_counterexample:
  "replace get_country_mapping (Str []) = Str [] \<and>
   replace get_country_mapping Null = Null \<and>
   map_sum id (map country) (normalize_table sample_infer sample_parse blank_country_table)
     = Inr [Str [], Null, Str ''XXX'']"
proof -
  have "map_sum id (map country) (normalize_table sample_infer sample_parse blank_country_table)
     = Inr [Str [], Null, Str ''XXX'']"
    by code_simp
  then show ?thesis by (simp add: replace_def get_country_mapping_def)
qed

text \<open>
  C4, amended. The country code map has 27 entries and no key twice. Replacing a country
  code yields the display name of the code, which is never empty, when the code is a
  key of the map, and the value itself, unchanged, otherwise: the result is empty or
  undefined only when the input is. This is the country of every normalized row.
\<close>

theorem country_remap_total:
  "length get_country_mapping = 27 \<and> distinct (map fst get_country_mapping) \<and>
   (\<forall>name. (code, name) \<in> set get_country_mapping \<longrightarrow>
      replace get_country_mapping (Str code) = Str name \<and> name \<noteq> []) \<and>
   (c \<notin> Str ` fst ` set get_country_mapping \<longrightarrow> replace get_country_mapping c = c) \<and>
   (\<forall>infer parse dt t i. normalize_table infer parse dt = Inr t \<and> i < length (data dt) \<longrightarrow>
      country (t ! i) = replace get_country_mapping (infer (raw_column dt ''country'') (raw_field dt i ''country'')))"
proof (intro conjI allI impI)
  show "length get_country_mapping = 27" by (simp add: get_country_mapping_def)
  show "distinct (map fst get_country_mapping)" by (rule distinct_country_codes)
  show "replace get_country_mapping (Str code) = Str name"
    if "(code, name) \<in> set get_country_mapping" for name
    using that distinct_country_codes by (simp add: replace_def)
  show "name \<noteq> []" if "(code, name) \<in> set get_country_mapping" for name
    using that country_names_nonempty by blast
  show "replace get_country_mapping c = c" if "c \<notin> Str ` fst ` set get_country_mapping"
  proof (cases c)
    case (Str s)
    then have "s \<notin> fst ` set get_country_mapping" using that by blast
    then have "map_of get_country_mapping s = None" by (simp add: map_of_eq_None_iff)
    then show ?thesis using Str by (simp add: replace_def)
  qed (simp_all add: replace_def)
  show "country (t ! i) = replace get_country_mapping (infer (raw_column dt ''country'') (raw_field dt i ''country''))"
    if "normalize_table infer parse dt = Inr t \<and> i < length (data dt)" for infer parse dt t i
  proof -
    have ok: "normalize_table infer parse dt = Inr t" using that by simp
    obtain reading where "parse (stored_column infer dt ''reportdate'') = Some reading"
      and "t = map (normalized_row infer reading dt) [0..<length (data dt)]"
      by (rule normalize_rows [OF ok])
    then show ?thesis using that by (simp add: normalized_row_def stored_field_def)
  qed
qed

text \<open>The code \<open>USA\<close> is a key, the code \<open>XXX\<close> is none.\<close>

theorem country_remap_total_witness:
  "replace get_country_mapping (Str ''USA'') = Str ''United States'' \<and>
   replace get_country_mapping (Str ''XXX'') = Str ''XXX'' \<and>
   country (sample_rows ! 0) = Str ''United States'' \<and>
   country (sample_rows ! 2) = Str ''XXX''"
  using country_remap_total [of "''USA''" "Str ''XXX''"]
  by (simp add: get_country_mapping_def replace_def sample_rows_def)

text \<open>
  C5, as stated, fails: a raw table may declare the nine names and still not be
  normalized. With the label \<open>amount\<close> declared twice the selection of line 134 has ten
  columns and the assignment of nine labels (line 142) raises; with a row longer than
  the header the construction of the frame (line 115) raises; with dates of two
  different UTC offsets \<open>pd.to_datetime\<close> (line 120) raises.
\<close>

theorem normalize_keeps_every_row_counterexample:
  "set necessary_columns \<subseteq> set (columns twice_amount_table) \<and>
   normalize_table sample_infer sample_parse twice_amount_table = Inl ValueError \<and>
   fst (process_data sample_infer sample_parse
          (sample_analyzer\<lparr>raw_data := Some twice_amount_table\<rparr>)) = None \<and>
   set necessary_columns \<subseteq> set (columns long_rows_table) \<and>
   normalize_table sample_infer sample_parse long_rows_table = Inl ValueError \<and>
   fst (process_data sample_infer sample_parse
          (sample_analyzer\<lparr>raw_data := Some long_rows_table\<rparr>)) = None \<and>
   set necessary_columns \<subseteq> set (columns two_offsets_table) \<and>
   normalize_table sample_infer sample_parse two_offsets_table = Inl ValueError \<and>
   fst (process_data sample_infer sample_parse
          (sample_analyzer\<lparr>raw_data := Some two_offsets_table\<rparr>)) = None"
proof -
  have twice: "normalize_table sample_infer sample_parse twice_amount_table = Inl ValueError"
    by code_simp
  have long: "normalize_table sample_infer sample_parse long_rows_table = Inl ValueError"
    by code_simp
  have offsets: "normalize_table sample_infer sample_parse two_offsets_table = Inl ValueError"
    by code_simp
  have "set necessary_columns \<subseteq> set (columns twice_amount_table)"
    by (auto simp: twice_amount_table_def)
  moreover have "set necessary_columns \<subseteq> set (columns long_rows_table)"
    by (simp add: long_rows_table_def)
  moreover have "set necessary_columns \<subseteq> set (columns two_offsets_table)"
    by (simp add: two_offsets_table_def)
  ultimately show ?thesis
    using twice long offsets by (simp add: process_data_def)
qed

text \<open>
  C5, amended. For every raw table in which each of the nine names labels exactly one
  column, whose longest row has exactly one value per declared column (or which has no
  row), and whose date column \<open>pd.to_datetime\<close> does not refuse, extraction and
  normalization produce a table with exactly as many rows as the raw data list: no row
  is dropped before the filter.
\<close>

theorem normalize_keeps_every_row:
  assumes "well_formed dt"
    and "parse (map (infer (raw_column dt ''reportdate'')) (raw_column dt ''reportdate'')) \<noteq> None"
  shows "\<exists>t. normalize_table infer parse dt = Inr t \<and> length t = length (data dt)"
proof -
  have col: "stored_column infer dt ''reportdate''
      = map (infer (raw_column dt ''reportdate'')) (raw_column dt ''reportdate'')"
    by (simp add: stored_column_def stored_field_def raw_column_def)
  obtain reading where "parse (stored_column infer dt ''reportdate'') = Some reading"
    using assms(2) col by auto
  then obtain t where t: "normalize_table infer parse dt = Inr t"
    using well_formed_normalize [OF assms(1)] by blast
  then have "length t = length (data dt)" by (rule length_normalize)
  then show ?thesis using t by blast
qed

theorem normalize_keeps_every_row_witness:
  "well_formed sample_table \<and>
   sample_parse (map (sample_infer (raw_column sample_table ''reportdate''))
     (raw_column sample_table ''reportdate'')) = Some sample_reading \<and>
   (\<exists>t. normalize_table sample_infer sample_parse sample_table = Inr t \<and> length t = 3)"
proof -
  have shape: "well_formed sample_table" by (rule well_formed_sample)
  have accepted: "sample_parse (map (sample_infer (raw_column sample_table ''reportdate''))
     (raw_column sample_table ''reportdate'')) \<noteq> None"
    by (simp add: reading_sample)
  have "length (data sample_table) = 3" by (simp add: sample_table_def)
  then show ?thesis
    using shape reading_sample
      normalize_keeps_every_row
        [where dt = sample_table and parse = sample_parse and infer = sample_infer,
         OF shape accepted]
    by simp
qed

text \<open>
  C6, as stated, fails: the frame stores a column under one dtype. In a table whose
  amounts are the integer \<open>2 ^ 53 + 1\<close> and the float 0.5, and whose report ids are that
  integer and a missing value, both columns are stored as float64, and the integer
  becomes \<open>2 ^ 53\<close>.
\<close>

theorem normalize_preserves_values_counterexample:
  "raw_field big_integer_table 0 ''amount'' = Integer 9007199254740993 \<and>
   raw_field big_integer_table 0 ''reportid'' = Integer 9007199254740993 \<and>
   map_sum id (map amount) (normalize_table sample_infer sample_parse big_integer_table)
     = Inr [Float (Finite 4503599627370496 1), Float (Finite 1 (- 1))] \<and>
   map_sum id (map report_id) (normalize_table sample_infer sample_parse big_integer_table)
     = Inr [Float (Finite 4503599627370496 1), Null] \<and>
   float_value (Finite 4503599627370496 1) = Some 9007199254740992"
proof (intro conjI)
  show "raw_field big_integer_table 0 ''amount'' = Integer 9007199254740993" by code_simp
  show "raw_field big_integer_table 0 ''reportid'' = Integer 9007199254740993" by code_simp
  show "map_sum id (map amount) (normalize_table sample_infer sample_parse big_integer_table)
     = Inr [Float (Finite 4503599627370496 1), Float (Finite 1 (- 1))]" by code_simp
  show "map_sum id (map report_id) (normalize_table sample_infer sample_parse big_integer_table)
     = Inr [Float (Finite 4503599627370496 1), Null]" by code_simp
  show "float_value (Finite 4503599627370496 1) = Some 9007199254740992" by simp
qed

text \<open>
  C6, amended. For every row of the raw table, the amount and the report id of the
  normalized row are the values that \<open>pd.DataFrame\<close> stored for the raw values when it
  built the frame (it stores a column under one dtype, which turns the integers of a
  column that also holds floats or missing values into floats); no later step changes
  them. The same holds for the report type, company name, region, indicator and
  statement: only the date and the country are transformed (and the columns selected and
  renamed).
\<close>

theorem normalize_preserves_values:
  assumes "normalize_table infer parse dt = Inr t" and "i < length (data dt)"
  shows "amount (t ! i) = infer (raw_column dt ''amount'') (raw_field dt i ''amount'') \<and>
         report_id (t ! i) = infer (raw_column dt ''reportid'') (raw_field dt i ''reportid'') \<and>
         report_type (t ! i) = infer (raw_column dt ''reporttype'') (raw_field dt i ''reporttype'') \<and>
         company_name (t ! i) = infer (raw_column dt ''longname'') (raw_field dt i ''longname'') \<and>
         region (t ! i) = infer (raw_column dt ''region'') (raw_field dt i ''region'') \<and>
         indicator (t ! i) = infer (raw_column dt ''indicator'') (raw_field dt i ''indicator'') \<and>
         statement (t ! i) = infer (raw_column dt ''statement'') (raw_field dt i ''statement'')"
proof -
  obtain reading where "parse (stored_column infer dt ''reportdate'') = Some reading"
    and "t = map (normalized_row infer reading dt) [0..<length (data dt)]"
    by (rule normalize_rows [OF assms(1)])
  then have "t ! i = normalized_row infer reading dt i"
    using assms(2) by simp
  then show ?thesis by (simp add: normalized_row_def stored_field_def)
qed

text \<open>In the sample table nothing is converted: amount and report id stay as they are.\<close>

theorem normalize_preserves_values_witness:
  "normalize_table sample_infer sample_parse sample_table = Inr sample_rows \<and>
   raw_field sample_table 0 ''amount'' = Float (Finite 25 (- 1)) \<and>
   raw_field sample_table 0 ''reportid'' = Str ''R1'' \<and>
   sample_infer (raw_column sample_table ''amount'') (Float (Finite 25 (- 1))) = Float (Finite 25 (- 1)) \<and>
   sample_infer (raw_column sample_table ''reportid'') (Str ''R1'') = Str ''R1'' \<and>
   amount (sample_rows ! 0) = Float (Finite 25 (- 1)) \<and>
   report_id (sample_rows ! 0) = Str ''R1''"
proof -
  have n: "normalize_table sample_infer sample_parse sample_table = Inr sample_rows"
    by (rule normalize_sample)
  have i: "0 < length (data sample_table)" by (simp add: sample_table_def)
  have a: "raw_field sample_table 0 ''amount'' = Float (Finite 25 (- 1))" by code_simp
  have r: "raw_field sample_table 0 ''reportid'' = Str ''R1''" by code_simp
  have "sample_infer (raw_column sample_table ''amount'') (Float (Finite 25 (- 1)))
      = Float (Finite 25 (- 1))" by code_simp
  moreover have "sample_infer (raw_column sample_table ''reportid'') (Str ''R1'') = Str ''R1''"
    by code_simp
  ultimately show ?thesis
    using n a r normalize_preserves_values [OF n i] by simp
qed

text \<open>
  C7, as stated, fails: date coercion is not total. \<open>pd.to_datetime\<close> refuses a column
  whose dates carry two different UTC offsets, although each is a date, and
  \<open>process_data\<close> returns \<open>None\<close>.
\<close>

theorem date_coercion_counterexample:
  "well_formed two_offsets_table \<and>
   sample_reading (Str ''2020-01-15T00:00:00+01:00'') = Some 1579042800000000000 \<and>
   sample_reading (Str ''2020-01-15T00:00:00+02:00'') = Some 1579039200000000000 \<and>
   normalize_table sample_infer sample_parse two_offsets_table = Inl ValueError \<and>
   fst (process_data sample_infer sample_parse
          (sample_analyzer\<lparr>raw_data := Some two_offsets_table\<rparr>)) = None"
proof -
  have "well_formed two_offsets_table" by code_simp
  moreover have offsets: "normalize_table sample_infer sample_parse two_offsets_table = Inl ValueError"
    by code_simp
  ultimately show ?thesis
    by (simp add: process_data_def sample_reading_def)
qed

text \<open>
  C7, amended. Normalization raises exactly when the raw table has not the shape it
  needs or \<open>pd.to_datetime\<close> refuses its date column as a whole; otherwise \<open>process_data\<close>
  returns a result. In the table produced every row is retained, and the report date of
  a row is NaT when pandas reads its \<open>reportdate\<close> value as no date, and the timestamp it
  reads otherwise.
\<close>

theorem date_coercion:
  "(isl (normalize_table infer parse dt) \<longleftrightarrow>
      \<not> well_formed dt \<or>
      parse (map (infer (raw_column dt ''reportdate'')) (raw_column dt ''reportdate'')) = None) \<and>
   (raw_data self = Some dt \<and> \<not> isl (normalize_table infer parse dt) \<longrightarrow>
      fst (process_data infer parse self) \<noteq> None) \<and>
   (\<forall>t. normalize_table infer parse dt = Inr t \<longrightarrow>
      length t = length (data dt) \<and>
      (\<exists>reading.
         parse (map (infer (raw_column dt ''reportdate'')) (raw_column dt ''reportdate''))
           = Some reading \<and>
         (\<forall>i<length (data dt).
            report_date (t ! i)
              = (case reading (infer (raw_column dt ''reportdate'') (raw_field dt i ''reportdate'')) of
                   None \<Rightarrow> NaT | Some ts \<Rightarrow> Timestamp ts))))"
proof (intro conjI allI impI)
  have col: "stored_column infer dt ''reportdate''
      = map (infer (raw_column dt ''reportdate'')) (raw_column dt ''reportdate'')"
    by (simp add: stored_column_def stored_field_def raw_column_def)
  show "isl (normalize_table infer parse dt) \<longleftrightarrow>
      \<not> well_formed dt \<or>
      parse (map (infer (raw_column dt ''reportdate'')) (raw_column dt ''reportdate'')) = None"
  proof (cases "normalize_table infer parse dt")
    case (Inl e)
    have "\<not> (well_formed dt \<and> parse (stored_column infer dt ''reportdate'') \<noteq> None)"
    proof
      assume "well_formed dt \<and> parse (stored_column infer dt ''reportdate'') \<noteq> None"
      then obtain reading where "well_formed dt"
        and "parse (stored_column infer dt ''reportdate'') = Some reading" by auto
      then have "\<exists>t. normalize_table infer parse dt = Inr t" by (rule well_formed_normalize)
      then show False using Inl by simp
    qed
    then show ?thesis using Inl col by auto
  next
    case (Inr t)
    have "well_formed dt" using Inr by (rule normalize_well_formed)
    moreover have "parse (stored_column infer dt ''reportdate'') \<noteq> None"
      using normalize_rows [OF Inr] by auto
    ultimately show ?thesis using Inr col by simp
  qed
  show "fst (process_data infer parse self) \<noteq> None"
    if "raw_data self = Some dt \<and> \<not> isl (normalize_table infer parse dt)"
    using that by (cases "normalize_table infer parse dt") (simp_all add: process_data_def)
  fix t assume t: "normalize_table infer parse dt = Inr t"
  show "length t = length (data dt)" using t by (rule length_normalize)
  obtain reading where rd: "parse (stored_column infer dt ''reportdate'') = Some reading"
    and rows: "t = map (normalized_row infer reading dt) [0..<length (data dt)]"
    by (rule normalize_rows [OF t])
  have "\<forall>i<length (data dt).
            report_date (t ! i)
              = (case reading (infer (raw_column dt ''reportdate'') (raw_field dt i ''reportdate'')) of
                   None \<Rightarrow> NaT | Some ts \<Rightarrow> Timestamp ts)"
    using rows by (simp add: normalized_row_def stored_field_def coerce_def)
  then show "\<exists>reading.
         parse (map (infer (raw_column dt ''reportdate'')) (raw_column dt ''reportdate''))
           = Some reading \<and>
         (\<forall>i<length (data dt).
            report_date (t ! i)
              = (case reading (infer (raw_column dt ''reportdate'') (raw_field dt i ''reportdate'')) of
                   None \<Rightarrow> NaT | Some ts \<Rightarrow> Timestamp ts))"
    using rd col by auto
qed

text \<open>The second sample row has the date \<open>not-a-date\<close>: it is kept, with NaT.\<close>

theorem date_coercion_witness:
  "raw_field sample_table 1 ''reportdate'' = Str ''not-a-date'' \<and>
   sample_infer (raw_column sample_table ''reportdate'') (Str ''not-a-date'') = Str ''not-a-date'' \<and>
   sample_parse (map (sample_infer (raw_column sample_table ''reportdate''))
     (raw_column sample_table ''reportdate'')) = Some sample_reading \<and>
   sample_reading (Str ''not-a-date'') = None \<and>
   normalize_table sample_infer sample_parse sample_table = Inr sample_rows \<and>
   length sample_rows = length (data sample_table) \<and>
   report_date (sample_rows ! 1) = NaT"
proof -
  have n: "normalize_table sample_infer sample_parse sample_table = Inr sample_rows"
    by (rule normalize_sample)
  have r: "raw_field sample_table 1 ''reportdate'' = Str ''not-a-date''" by code_simp
  have s: "sample_infer (raw_column sample_table ''reportdate'') (Str ''not-a-date'')
      = Str ''not-a-date''" by code_simp
  have p: "sample_reading (Str ''not-a-date'') = None" by (simp add: sample_reading_def)
  have i: "1 < length (data sample_table)" by (simp add: sample_table_def)
  show ?thesis
    using date_coercion [of sample_infer sample_parse sample_table] n r s p i reading_sample
    by simp
qed

text \<open>
  C8. For every raw table whose declared columns lack one of the nine names,
  normalization raises (ValueError, or KeyError for a name that is missing), and
  \<open>process_data\<close> returns \<open>None\<close> and leaves the instance, its processed data included, as it
  was before the call.
\<close>

theorem missing_column_aborts:
  assumes "raw_data self = Some dt"
    and "n \<in> set necessary_columns" and "n \<notin> set (columns dt)"
  shows "(\<exists>e. normalize_table infer parse dt = Inl e \<and>
            (e = ValueError \<or> (\<exists>m\<in>set necessary_columns. m \<notin> set (columns dt) \<and> e = KeyError m))) \<and>
         process_data infer parse self = (None, self)"
proof -
  obtain e where e: "normalize_table infer parse dt = Inl e"
    and kind: "e = ValueError \<or> (\<exists>m\<in>set necessary_columns. m \<notin> set (columns dt) \<and> e = KeyError m)"
    using normalize_missing_column [OF assms(2) assms(3)] by blast
  have "process_data infer parse self = (None, self)"
    using assms(1) e by (simp add: process_data_def)
  then show ?thesis using e kind by blast
qed

text \<open>
  The table without \<open>amount\<close>: KeyError, and the rows of the earlier run stay in place.
\<close>

theorem missing_column_aborts_witness:
  "''amount'' \<in> set necessary_columns \<and> ''amount'' \<notin> set (columns no_amount_table) \<and>
   normalize_table sample_infer sample_parse no_amount_table = Inl (KeyError ''amount'') \<and>
   process_data sample_infer sample_parse sample_analyzer = (None, sample_analyzer) \<and>
   processed_data sample_analyzer = Some sample_rows"
proof -
  have r: "raw_data sample_analyzer = Some no_amount_table" by (simp add: sample_analyzer_def)
  have n: "''amount'' \<in> set necessary_columns" by (simp add: necessary_columns_def)
  have a: "''amount'' \<notin> set (columns no_amount_table)"
    by (simp add: no_amount_table_def necessary_columns_def)
  have k: "normalize_table sample_infer sample_parse no_amount_table = Inl (KeyError ''amount'')"
    by code_simp
  show ?thesis
    using missing_column_aborts [OF r n a, of sample_infer sample_parse] n a k
    by (simp add: sample_analyzer_def)
qed

text \<open>
  C9. For every table, each row of the filter's output is a row of its input, and
  filtering the output again returns it unchanged.
\<close>

theorem filter_subset_idempotent:
  "set (filtered_df df) \<subseteq> set df \<and> filtered_df (filtered_df df) = filtered_df df"
proof
  show "set (filtered_df df) \<subseteq> set df"
    by (auto simp: filtered_df_filter)
  show "filtered_df (filtered_df df) = filtered_df df"
    by (simp add: filtered_df_filter)
qed

text \<open>On the sample rows.\<close>

theorem filter_subset_idempotent_witness:
  "set (filtered_df sample_rows) \<subseteq> set sample_rows \<and>
   filtered_df (filtered_df sample_rows) = [sample_rows ! 0]"
  using filter_subset_idempotent [of sample_rows]
  by (simp add: sample_rows_def filtered_df_def)

text \<open>
  C10. For every three argument strings, the instance that \<open>__init__\<close> builds has the API
  key, the user name and the password of the module \<open>config\<close>; the arguments are ignored,
  so any other three arguments build the same instance.
\<close>

theorem init_ignores_arguments:
  "api_key (init cfg a u p) = config_api_key cfg \<and>
   username (init cfg a u p) = config_username cfg \<and>
   password (init cfg a u p) = config_password cfg \<and>
   init cfg a u p = init cfg a' u' p'"
  by (simp add: init_def)

text \<open>Arguments that differ from the configuration leave no trace.\<close>

theorem init_ignores_arguments_witness:
  "api_key (init \<lparr>config_api_key = ''K'', config_username = ''U'', config_password = ''P''\<rparr>
      ''other key'' ''other user'' ''other password'') = ''K'' \<and>
   username (init \<lparr>config_api_key = ''K'', config_username = ''U'', config_password = ''P''\<rparr>
      ''other key'' ''other user'' ''other password'') = ''U'' \<and>
   password (init \<lparr>config_api_key = ''K'', config_username = ''U'', config_password = ''P''\<rparr>
      ''other key'' ''other user'' ''other password'') = ''P''"
  using init_ignores_arguments
    [of "\<lparr>config_api_key = ''K'', config_username = ''U'', config_password = ''P''\<rparr>"
        "''other key''" "''other user''" "''other password''"]
  by simp

end
